theory Spec2Isabelle
  imports Main "HOL-Library.AList" "HOL-Library.Word"
begin

section \<open>The avatar service: data model\<close>

text \<open>
  The development follows \<^verbatim>\<open>server.js\<close> (the avatar endpoints) and the extended
  server with the admin image endpoints and \<^verbatim>\<open>clearCacheByPrefix\<close>. Buffers are byte
  lists. The module-level \<^verbatim>\<open>imageCache = new Map()\<close> is an insertion-ordered table
  with one value per string key: an association list handled only through
  \<open>cache_get\<close>, \<open>cache_set\<close> and \<open>cache_delete\<close>. A string is a list of code units
  below 256 (a \<open>char\<close> each); JavaScript's code units from 256 on are outside this type.
\<close>

type_synonym bytes = "8 word list"

type_synonym image_cache = "(string \<times> bytes) list"

definition cache_get :: "string \<Rightarrow> image_cache \<Rightarrow> bytes option" where
  "cache_get key c = map_of c key"

definition cache_set :: "string \<Rightarrow> bytes \<Rightarrow> image_cache \<Rightarrow> image_cache" where
  "cache_set key v c = AList.update key v c"

definition cache_delete :: "string \<Rightarrow> image_cache \<Rightarrow> image_cache" where
  "cache_delete key c = AList.delete key c"

text \<open>\<^verbatim>\<open>key.startsWith(prefix)\<close> on strings.\<close>

fun startsWith :: "string \<Rightarrow> string \<Rightarrow> bool" where
  "startsWith s [] = True"
| "startsWith [] (p # ps) = False"
| "startsWith (c # s) (p # ps) = (c = p \<and> startsWith s ps)"

text \<open>
  \<^verbatim>\<open>clearCacheByPrefix\<close>: the loop over \<^verbatim>\<open>imageCache.keys()\<close> that deletes every key
  starting with the prefix. The avatar DELETE handler of \<^verbatim>\<open>server.js\<close> writes the same
  loop inline with \<^verbatim>\<open>imageCache.forEach\<close>.
\<close>

definition clearCacheByPrefix :: "string \<Rightarrow> image_cache \<Rightarrow> image_cache" where
  "clearCacheByPrefix prefix c =
     fold (\<lambda>key m. if startsWith key prefix then cache_delete key m else m) (map fst c) c"

text \<open>
  The two key templates, \<^verbatim>\<open>`${userId}-${size}`\<close> and \<^verbatim>\<open>`image-${imageId}-${size}`\<close>
  (\<open>sz\<close> is the source's \<^verbatim>\<open>size\<close>).
\<close>

definition cacheKey :: "string \<Rightarrow> string \<Rightarrow> string" where
  "cacheKey userId sz = userId @ ''-'' @ sz"

definition image_cacheKey :: "string \<Rightarrow> string \<Rightarrow> string" where
  "image_cacheKey imageId sz = ''image-'' @ imageId @ ''-'' @ sz"

subsection \<open>The size table\<close>

text \<open>
  \<^verbatim>\<open>sizes[size]\<close> is a property read on an object literal: it yields the own property when
  there is one, a member inherited from \<^verbatim>\<open>Object.prototype\<close> for the names listed in
  \<open>objectPrototypeKeys\<close>, and \<^verbatim>\<open>undefined\<close> otherwise.
\<close>

datatype jsval = JNum nat | JNull | JUndefined | JProtoMember string

definition objectPrototypeKeys :: "string list" where
  "objectPrototypeKeys =
     [''constructor'', ''__defineGetter__'', ''__defineSetter__'', ''hasOwnProperty'',
      ''__lookupGetter__'', ''__lookupSetter__'', ''isPrototypeOf'', ''propertyIsEnumerable'',
      ''toString'', ''valueOf'', ''__proto__'', ''toLocaleString'']"

definition sizes :: "string \<Rightarrow> jsval" where
  "sizes k =
     (if k = ''small'' then JNum 100
      else if k = ''medium'' then JNum 300
      else if k = ''large'' then JNum 600
      else if k = ''original'' then JNull
      else if List.member objectPrototypeKeys k then JProtoMember k
      else JUndefined)"

fun truthy :: "jsval \<Rightarrow> bool" where
  "truthy (JNum n) = (n \<noteq> 0)"
| "truthy JNull = False"
| "truthy JUndefined = False"
| "truthy (JProtoMember k) = True"

text \<open>\<^verbatim>\<open>const targetSize = sizes[size] || sizes.medium\<close>\<close>

definition targetSize :: "string \<Rightarrow> jsval" where
  "targetSize sz = (if truthy (sizes sz) then sizes sz else sizes ''medium'')"

text \<open>The variants that the size table and the README name.\<close>

definition variants :: "string list" where
  "variants = [''small'', ''medium'', ''large'', ''original'']"

subsection \<open>Collaborators, requests and responses\<close>

datatype fit = Cover | Inside

text \<open>A thrown JavaScript error: its \<^verbatim>\<open>status\<close> property, when it has one, and its message.\<close>

datatype exn = Exn (exn_status: "nat option") (exn_message: string)

record user_record =
  user_id :: string
  user_avatar :: string
  user_collectionId :: string

record image_record =
  image_id :: string
  image_file :: string
  image_collectionId :: string

record fetch_response =
  resp_ok :: bool
  resp_body :: bytes

text \<open>
  The world outside the process: the PocketBase client (\<^verbatim>\<open>getOne\<close> on the users and
  on the images collection, \<^verbatim>\<open>update\<close>, \<^verbatim>\<open>delete\<close>), \<^verbatim>\<open>fetch\<close>, the two \<^verbatim>\<open>sharp\<close>
  pipelines (resize to a square target and encode as WEBP; the 400 by 400 cover crop of
  an upload) and \<^verbatim>\<open>NODE_ENV === 'development'\<close>. Each collaborator either returns or
  throws. \<open>baseUrl\<close> is the address of PocketBase: the literal
  \<^verbatim>\<open>http://pocketbase:8090\<close> in the first \<^verbatim>\<open>server.js\<close>, and
  \<^verbatim>\<open>process.env.POCKETBASE_URL || 'http://localhost:8090'\<close> in the later ones. The
  upload's file name carries \<^verbatim>\<open>Date.now()\<close> and is left to \<open>pb_update\<close>, whose second
  argument is the new avatar (\<open>None\<close> for \<^verbatim>\<open>avatar: null\<close>). A query parameter is
  absent or a string: the handlers use \<^verbatim>\<open>size\<close> only through its conversion to a string
  (the key template and the property read), so an array or object value behaves as the
  string it converts to, and \<^verbatim>\<open>download\<close> only through \<^verbatim>\<open>=== 'true'\<close>.
\<close>

record env =
  baseUrl :: string
  getOne :: "string \<Rightarrow> exn + user_record"
  getOneImage :: "string \<Rightarrow> exn + image_record"
  fetch :: "string \<Rightarrow> exn + fetch_response"
  sharp_resize_webp :: "fit \<Rightarrow> jsval \<Rightarrow> bytes \<Rightarrow> exn + bytes"
  sharp_upload :: "bytes \<Rightarrow> exn + bytes"
  pb_update :: "string \<Rightarrow> bytes option \<Rightarrow> exn + user_record"
  pb_delete_image :: "string \<Rightarrow> exn + unit"
  development :: bool

datatype ext_call =
    CallGetOne string
  | CallGetOneImage string
  | CallFetch string
  | CallResize fit jsval bytes
  | CallUpload bytes
  | CallUpdate string "bytes option"
  | CallDeleteImage string

text \<open>The process state: the cache and the log of collaborator calls made so far.\<close>

record state =
  imageCache :: image_cache
  calls :: "ext_call list"

definition call :: "ext_call \<Rightarrow> state \<Rightarrow> state" where
  "call c st = st\<lparr>calls := calls st @ [c]\<rparr>"

datatype hval = HStr string | HNum nat

text \<open>
  What the application hands to Express as its answer: \<^verbatim>\<open>res.set(headers);
  res.send(buffer)\<close> (status 200), \<^verbatim>\<open>res.status(n).json({error, details})\<close>, a success
  document, or nothing at all because no route matched the request, which Express itself
  answers with status 404 (\<open>NoRoute\<close>). After a \<^verbatim>\<open>res.set\<close> that threw part-way, the
  headers it had already set stay on the response; \<open>JsonError\<close> does not record them.
\<close>

datatype response =
    Send "(string \<times> hval) list" bytes
  | JsonError nat string "string option"
  | JsonOk string "(string \<times> string) list"
  | NoRoute

fun status_of :: "response \<Rightarrow> nat" where
  "status_of (Send hs b) = 200"
| "status_of (JsonError n e d) = n"
| "status_of (JsonOk m u) = 200"
| "status_of NoRoute = 404"

fun header :: "string \<Rightarrow> response \<Rightarrow> hval option" where
  "header name (Send hs b) = map_of hs name"
| "header name (JsonError n e d) = None"
| "header name (JsonOk m u) = None"
| "header name NoRoute = None"

fun sent_bytes :: "response \<Rightarrow> bytes option" where
  "sent_bytes (Send hs b) = Some b"
| "sent_bytes (JsonError n e d) = None"
| "sent_bytes (JsonOk m u) = None"
| "sent_bytes NoRoute = None"

record req_user =
  req_id :: string
  req_admin :: bool

section \<open>Setting the response headers\<close>

text \<open>
  \<^verbatim>\<open>res.set(headers)\<close> hands the values one by one, in the order of the object's keys, to
  Node's \<^verbatim>\<open>setHeader\<close>. That throws a \<^verbatim>\<open>TypeError\<close> (an error with no \<^verbatim>\<open>status\<close>) for
  a value with a character other than tab, \<^verbatim>\<open>0x20\<close> to \<^verbatim>\<open>0x7e\<close> and \<^verbatim>\<open>0x80\<close> to \<^verbatim>\<open>0xff\<close>
  (\<^verbatim>\<open>checkInvalidHeaderChar\<close>). A number is set as its decimal digits.
\<close>

definition dquote :: char where
  "dquote = CHR 0x22"

definition invalid_header_char :: "char \<Rightarrow> bool" where
  "invalid_header_char c =
     (if of_char c = (9::nat) then False
      else if of_char c < (32::nat) then True
      else of_char c = (127::nat))"

fun checkInvalidHeaderChar :: "string \<Rightarrow> bool" where
  "checkInvalidHeaderChar [] = False"
| "checkInvalidHeaderChar (c # cs) =
     (if invalid_header_char c then True else checkInvalidHeaderChar cs)"

fun invalid_header_value :: "hval \<Rightarrow> bool" where
  "invalid_header_value (HStr s) = checkInvalidHeaderChar s"
| "invalid_header_value (HNum n) = False"

fun res_set :: "(string \<times> hval) list \<Rightarrow> exn option" where
  "res_set [] = None"
| "res_set ((name, v) # hs) =
     (if invalid_header_value v
      then Some (Exn None (''Invalid character in header content ['' @ [dquote] @ name
                            @ [dquote] @ '']''))
      else res_set hs)"

text \<open>\<^verbatim>\<open>res.set(headers); res.send(body)\<close> inside a \<^verbatim>\<open>try\<close> block.\<close>

definition set_and_send :: "(string \<times> hval) list \<Rightarrow> bytes \<Rightarrow> exn + response" where
  "set_and_send headers body =
     (case res_set headers of Some e \<Rightarrow> Inl e | None \<Rightarrow> Inr (Send headers body))"

section \<open>GET /api/users/:userId/avatar\<close>

definition hit_headers :: "bytes \<Rightarrow> (string \<times> hval) list" where
  "hit_headers cached =
     [(''Content-Type'', HStr ''image/webp''),
      (''Content-Length'', HNum (length cached)),
      (''Cache-Control'', HStr ''public, max-age=86400''),
      (''X-Cache'', HStr ''HIT'')]"

definition miss_headers :: "string \<Rightarrow> bool \<Rightarrow> bytes \<Rightarrow> (string \<times> hval) list" where
  "miss_headers userId download processedImage =
     [(''Content-Type'', HStr ''image/webp''),
      (''Content-Length'', HNum (length processedImage)),
      (''Cache-Control'', HStr ''public, max-age=86400''),
      (''X-Cache'', HStr ''MISS''),
      (''X-Image-Id'', HStr userId)]
     @ (if download
        then [(''Content-Disposition'',
               HStr (''attachment; filename='' @ [dquote] @ ''avatar-'' @ userId @ ''.webp''
                     @ [dquote]))]
        else [])"

definition imageUrl :: "env \<Rightarrow> user_record \<Rightarrow> string" where
  "imageUrl env user =
     baseUrl env @ ''/api/files/'' @ user_collectionId user @ ''/'' @ user_id user
       @ ''/'' @ user_avatar user"

text \<open>
  The tail of the handler: \<^verbatim>\<open>imageCache.set\<close> first, then \<^verbatim>\<open>res.set(headers)\<close> and
  \<^verbatim>\<open>res.send\<close>. The headers carry the raw \<^verbatim>\<open>userId\<close>, so setting them can throw, and
  then the entry is already stored.
\<close>

definition store_and_send ::
  "string \<Rightarrow> string \<Rightarrow> bool \<Rightarrow> bytes \<Rightarrow> state \<Rightarrow> (exn + response) \<times> state" where
  "store_and_send key userId download processedImage st =
     (set_and_send (miss_headers userId download processedImage) processedImage,
      st\<lparr>imageCache := cache_set key processedImage (imageCache st)\<rparr>)"

text \<open>
  The \<^verbatim>\<open>try\<close> block after the cache lookup missed. \<open>Inl\<close> is a thrown error, which the
  \<^verbatim>\<open>catch\<close> block below turns into a response. \<open>fetch\<close> stands for \<^verbatim>\<open>fetch\<close> followed by
  \<^verbatim>\<open>response.arrayBuffer()\<close>, and \<open>sharp_resize_webp\<close> for the whole pipeline from
  \<^verbatim>\<open>sharp(...)\<close> to \<^verbatim>\<open>toBuffer()\<close>.
\<close>

definition avatar_get_miss ::
  "env \<Rightarrow> string \<Rightarrow> string \<Rightarrow> bool \<Rightarrow> string \<Rightarrow> state \<Rightarrow> (exn + response) \<times> state" where
  "avatar_get_miss env userId sz download key st =
     (let st1 = call (CallGetOne userId) st in
      case getOne env userId of
        Inl e \<Rightarrow> (Inl e, st1)
      | Inr user \<Rightarrow>
          if user_avatar user = [] then (Inr (JsonError 404 ''Avatar no encontrado'' None), st1)
          else
            let st2 = call (CallFetch (imageUrl env user)) st1 in
            (case fetch env (imageUrl env user) of
               Inl e \<Rightarrow> (Inl e, st2)
             | Inr response \<Rightarrow>
                 if \<not> resp_ok response
                 then (Inl (Exn None ''No se pudo obtener la imagen de PocketBase''), st2)
                 else
                   let processedImage = resp_body response in
                   if truthy (targetSize sz) then
                     let st3 = call (CallResize Cover (targetSize sz) processedImage) st2 in
                     (case sharp_resize_webp env Cover (targetSize sz) processedImage of
                        Inl e \<Rightarrow> (Inl e, st3)
                      | Inr resized \<Rightarrow> store_and_send key userId download resized st3)
                   else store_and_send key userId download processedImage st2))"

text \<open>\<^verbatim>\<open>const { size = 'medium' } = req.query\<close>: the default applies when the parameter is absent.\<close>

definition query_size :: "string option \<Rightarrow> string" where
  "query_size qsize = (case qsize of None \<Rightarrow> ''medium'' | Some s \<Rightarrow> s)"

text \<open>
  The \<^verbatim>\<open>try\<close> block: the query defaults (\<^verbatim>\<open>size = 'medium'\<close>, \<^verbatim>\<open>download === 'true'\<close>),
  then \<^verbatim>\<open>imageCache.has\<close> and \<^verbatim>\<open>imageCache.get\<close> on the key, read here in one lookup.
\<close>

definition avatar_get_try ::
  "env \<Rightarrow> string \<Rightarrow> string option \<Rightarrow> string option \<Rightarrow> state \<Rightarrow> (exn + response) \<times> state" where
  "avatar_get_try env userId qsize qdownload st =
     (let sz = query_size qsize;
          download = (qdownload = Some ''true'');
          key = cacheKey userId sz
      in case cache_get key (imageCache st) of
           Some cached \<Rightarrow> (set_and_send (hit_headers cached) cached, st)
         | None \<Rightarrow> avatar_get_miss env userId sz download key st)"

text \<open>The \<^verbatim>\<open>catch\<close> block: 404 for an error whose status is 404, 500 for any other.\<close>

definition avatar_get_catch :: "env \<Rightarrow> exn \<Rightarrow> response" where
  "avatar_get_catch env e =
     (if exn_status e = Some 404 then JsonError 404 ''Usuario o avatar no encontrado'' None
      else JsonError 500 ''Error interno del servidor''
             (if development env then Some (exn_message e) else None))"

definition avatar_get ::
  "env \<Rightarrow> string \<Rightarrow> string option \<Rightarrow> string option \<Rightarrow> state \<Rightarrow> response \<times> state" where
  "avatar_get env userId qsize qdownload st =
     (case avatar_get_try env userId qsize qdownload st of
        (Inl e, st') \<Rightarrow> (avatar_get_catch env e, st')
      | (Inr r, st') \<Rightarrow> (r, st'))"

text \<open>
  \<^verbatim>\<open>app.get('/api/users/:userId/avatar', ...)\<close>: the parameter matches one or more
  characters of the path, so a request whose id segment is empty does not reach the
  handler. No other route of the application matches such a path either (and the static
  middleware has no file for it): nothing is looked up, and Express answers 404.
  \<open>userId\<close> is the segment after percent-decoding; a segment that cannot be decoded is
  no \<open>userId\<close> and is outside this function.
\<close>

definition route_avatar_get ::
  "env \<Rightarrow> string \<Rightarrow> string option \<Rightarrow> string option \<Rightarrow> state \<Rightarrow> response \<times> state" where
  "route_avatar_get env userId qsize qdownload st =
     (if userId = [] then (NoRoute, st) else avatar_get env userId qsize qdownload st)"

section \<open>POST and DELETE /api/users/:userId/avatar\<close>

text \<open>
  Both handlers run after \<^verbatim>\<open>authenticateToken\<close>, which supplies \<^verbatim>\<open>req.user\<close>. The POST
  handler also gets \<^verbatim>\<open>req.file\<close>, absent when no image was sent.
\<close>

definition avatar_post ::
  "env \<Rightarrow> req_user \<Rightarrow> string \<Rightarrow> bytes option \<Rightarrow> state \<Rightarrow> response \<times> state" where
  "avatar_post env user userId file st =
     (if req_id user \<noteq> userId \<and> \<not> req_admin user
      then (JsonError 403 ''No tienes permisos para modificar este avatar'' None, st)
      else case file of
        None \<Rightarrow>
          (JsonError 400 (''No se proporcion'' @ [CHR 0xF3] @ '' ninguna imagen'') None,
           st)
      | Some buffer \<Rightarrow>
          let st1 = call (CallUpload buffer) st;
              failed = (\<lambda>e. JsonError 500 ''Error interno del servidor al procesar la imagen''
                               (if development env then Some (exn_message e) else None))
          in (case sharp_upload env buffer of
                Inl e \<Rightarrow> (failed e, st1)
              | Inr optimizedImage \<Rightarrow>
                  let st2 = call (CallUpdate userId (Some optimizedImage)) st1 in
                  (case pb_update env userId (Some optimizedImage) of
                     Inl e \<Rightarrow> (failed e, st2)
                   | Inr updatedUser \<Rightarrow>
                       (JsonOk ''Avatar actualizado exitosamente''
                          [(''id'', user_id updatedUser), (''avatar'', user_avatar updatedUser)],
                        st2\<lparr>imageCache := cache_delete userId (imageCache st2)\<rparr>))))"

definition avatar_delete ::
  "env \<Rightarrow> req_user \<Rightarrow> string \<Rightarrow> state \<Rightarrow> response \<times> state" where
  "avatar_delete env user userId st =
     (if req_id user \<noteq> userId \<and> \<not> req_admin user
      then (JsonError 403 ''No tienes permisos para eliminar este avatar'' None, st)
      else
        let st1 = call (CallUpdate userId None) st in
        case pb_update env userId None of
          Inl e \<Rightarrow> (JsonError 500 ''Error interno del servidor'' None, st1)
        | Inr updatedUser \<Rightarrow>
            (JsonOk ''Avatar eliminado exitosamente''
               [(''id'', user_id updatedUser), (''avatar'', user_avatar updatedUser),
                (''collectionId'', user_collectionId updatedUser)],
             st1\<lparr>imageCache := clearCacheByPrefix userId (imageCache st1)\<rparr>))"

section \<open>The admin image endpoints\<close>

text \<open>
  \<^verbatim>\<open>GET /api/admin/images/:imageId/file\<close>: the avatar handler's shape with the key
  \<^verbatim>\<open>`image-${imageId}-${size}`\<close>, the images collection, the fit \<open>inside\<close>, no download
  flag and no \<open>X-Image-Id\<close> header.
\<close>

definition image_fileUrl :: "env \<Rightarrow> image_record \<Rightarrow> string" where
  "image_fileUrl env img =
     baseUrl env @ ''/api/files/'' @ image_collectionId img @ ''/'' @ image_id img
       @ ''/'' @ image_file img"

definition image_miss_headers :: "bytes \<Rightarrow> (string \<times> hval) list" where
  "image_miss_headers processedImage =
     [(''Content-Type'', HStr ''image/webp''),
      (''Content-Length'', HNum (length processedImage)),
      (''Cache-Control'', HStr ''public, max-age=86400''),
      (''X-Cache'', HStr ''MISS'')]"

definition image_store_and_send :: "string \<Rightarrow> bytes \<Rightarrow> state \<Rightarrow> (exn + response) \<times> state" where
  "image_store_and_send key processedImage st =
     (set_and_send (image_miss_headers processedImage) processedImage,
      st\<lparr>imageCache := cache_set key processedImage (imageCache st)\<rparr>)"

definition image_get_miss ::
  "env \<Rightarrow> string \<Rightarrow> string \<Rightarrow> string \<Rightarrow> state \<Rightarrow> (exn + response) \<times> state" where
  "image_get_miss env imageId sz key st =
     (let st1 = call (CallGetOneImage imageId) st in
      case getOneImage env imageId of
        Inl e \<Rightarrow> (Inl e, st1)
      | Inr img \<Rightarrow>
          if image_file img = []
          then (Inr (JsonError 404 ''Archivo de imagen no encontrado'' None), st1)
          else
            let st2 = call (CallFetch (image_fileUrl env img)) st1 in
            (case fetch env (image_fileUrl env img) of
               Inl e \<Rightarrow> (Inl e, st2)
             | Inr response \<Rightarrow>
                 if \<not> resp_ok response
                 then (Inl (Exn None ''No se pudo obtener la imagen de PocketBase''), st2)
                 else
                   let processedImage = resp_body response in
                   if truthy (targetSize sz) then
                     let st3 = call (CallResize Inside (targetSize sz) processedImage) st2 in
                     (case sharp_resize_webp env Inside (targetSize sz) processedImage of
                        Inl e \<Rightarrow> (Inl e, st3)
                      | Inr resized \<Rightarrow> image_store_and_send key resized st3)
                   else image_store_and_send key processedImage st2))"

definition image_get_try ::
  "env \<Rightarrow> string \<Rightarrow> string option \<Rightarrow> state \<Rightarrow> (exn + response) \<times> state" where
  "image_get_try env imageId qsize st =
     (let sz = query_size qsize;
          key = image_cacheKey imageId sz
      in case cache_get key (imageCache st) of
           Some cached \<Rightarrow> (set_and_send (hit_headers cached) cached, st)
         | None \<Rightarrow> image_get_miss env imageId sz key st)"

definition image_get :: "env \<Rightarrow> string \<Rightarrow> string option \<Rightarrow> state \<Rightarrow> response \<times> state" where
  "image_get env imageId qsize st =
     (case image_get_try env imageId qsize st of
        (Inl e, st') \<Rightarrow>
          (if exn_status e = Some 404 then JsonError 404 ''Imagen no encontrada'' None
           else JsonError 500 ''Error interno del servidor''
                  (if development env then Some (exn_message e) else None),
           st')
      | (Inr r, st') \<Rightarrow> (r, st'))"

text \<open>
  \<^verbatim>\<open>DELETE /api/admin/images/:imageId\<close>, after \<^verbatim>\<open>authenticateToken\<close> and
  \<^verbatim>\<open>requireAdmin\<close>: delete in PocketBase, then \<^verbatim>\<open>clearCacheByPrefix(`image-${imageId}`)\<close>.
\<close>

definition image_delete :: "env \<Rightarrow> string \<Rightarrow> state \<Rightarrow> response \<times> state" where
  "image_delete env imageId st =
     (let st1 = call (CallDeleteImage imageId) st in
      case pb_delete_image env imageId of
        Inl e \<Rightarrow>
          (if exn_status e = Some 404 then JsonError 404 ''Imagen no encontrada'' None
           else JsonError 500 ''Error al eliminar imagen'' None,
           st1)
      | Inr u \<Rightarrow>
          (JsonOk ''Imagen eliminada exitosamente'' [],
           st1\<lparr>imageCache := clearCacheByPrefix (''image-'' @ imageId) (imageCache st1)\<rparr>))"

section \<open>A sample world\<close>

text \<open>
  One concrete world to run the handlers in: PocketBase knows the user \<open>u1\<close>, a user
  whose id \<open>nl_id\<close> has a line feed in it, and the images \<open>x\<close> and \<open>123\<close>, and their files
  can be fetched; resizing to a numeric target keeps the first two bytes (so its output
  differs from its input) and any other target makes it throw; every update and delete
  succeeds.
\<close>

definition nl_id :: string where
  "nl_id = [CHR ''u'', CHR 0x0A, CHR ''1'']"

definition user_u1 :: user_record where
  "user_u1 = \<lparr>user_id = ''u1'', user_avatar = ''a.webp'', user_collectionId = ''users''\<rparr>"

definition sample_env :: env where
  "sample_env = \<lparr>
     baseUrl = ''http://pocketbase:8090'',
     getOne =
       (\<lambda>uid. if uid = ''u1'' then Inr user_u1
              else if uid = nl_id
              then Inr \<lparr>user_id = nl_id, user_avatar = ''b.webp'', user_collectionId = ''users''\<rparr>
              else Inl (Exn (Some 404) ''not found'')),
     getOneImage =
       (\<lambda>iid. if iid = ''x'' \<or> iid = ''123''
              then Inr \<lparr>image_id = iid, image_file = ''i.webp'', image_collectionId = ''images''\<rparr>
              else Inl (Exn (Some 404) ''not found'')),
     fetch = (\<lambda>url. Inr \<lparr>resp_ok = True, resp_body = [1, 2, 3, 4]\<rparr>),
     sharp_resize_webp =
       (\<lambda>f t b. case t of
                  JNum n \<Rightarrow> Inr (take 2 b)
                | _ \<Rightarrow> Inl (Exn None ''Expected positive integer for width'')),
     sharp_upload = (\<lambda>b. Inr b),
     pb_update =
       (\<lambda>uid a. Inr \<lparr>user_id = uid,
                      user_avatar = (case a of None \<Rightarrow> [] | Some b \<Rightarrow> ''new.webp''),
                      user_collectionId = ''users''\<rparr>),
     pb_delete_image = (\<lambda>iid. Inr ()),
     development = False\<rparr>"

definition st_empty :: state where
  "st_empty = \<lparr>imageCache = [], calls = []\<rparr>"

definition st_u1 :: state where
  "st_u1 = \<lparr>imageCache = [(''u1-small'', [9]), (''u1-medium'', [8, 8])], calls = []\<rparr>"

definition st_123 :: state where
  "st_123 = \<lparr>imageCache = [(''123-medium'', [5])], calls = []\<rparr>"

definition st_image :: state where
  "st_image =
     \<lparr>imageCache = [(''image-x-medium'', [1, 2])],
      calls = [CallGetOneImage ''x'',
               CallFetch ''http://pocketbase:8090/api/files/images/x/i.webp'',
               CallResize Inside (JNum 300) [1, 2, 3, 4]]\<rparr>"

definition st_image_123 :: state where
  "st_image_123 =
     \<lparr>imageCache = [(''image-123-medium'', [1, 2])],
      calls = [CallGetOneImage ''123'',
               CallFetch ''http://pocketbase:8090/api/files/images/123/i.webp'',
               CallResize Inside (JNum 300) [1, 2, 3, 4]]\<rparr>"

definition owner_u1 :: req_user where
  "owner_u1 = \<lparr>req_id = ''u1'', req_admin = False\<rparr>"

definition admin_user :: req_user where
  "admin_user = \<lparr>req_id = ''root'', req_admin = True\<rparr>"

section \<open>Facts about the cache table\<close>

lemma cache_get_set: "cache_get k (cache_set k' v c) = (if k = k' then Some v else cache_get k c)"
  by (simp add: cache_get_def cache_set_def update_conv')

lemma cache_get_delete: "cache_get k (cache_delete k' c) = (if k = k' then None else cache_get k c)"
  by (simp add: cache_get_def cache_delete_def delete_conv')

lemma startsWith_iff: "startsWith s p \<longleftrightarrow> (\<exists>t. s = p @ t)"
  by (induction s p rule: startsWith.induct) auto

lemma startsWith_append: "startsWith (p @ t) p"
  by (simp add: startsWith_iff)

lemma cache_get_fold_delete:
  "cache_get k (fold (\<lambda>key m. if startsWith key p then cache_delete key m else m) ks c)
   = (if k \<in> set ks \<and> startsWith k p then None else cache_get k c)"
  by (induction ks arbitrary: c) (auto simp: cache_get_delete)

lemma cache_get_None_iff: "cache_get k c = None \<longleftrightarrow> k \<notin> fst ` set c"
  by (simp add: cache_get_def map_of_eq_None_iff)

lemma cache_get_clearCacheByPrefix:
  "cache_get k (clearCacheByPrefix p c) = (if startsWith k p then None else cache_get k c)"
proof (cases "k \<in> fst ` set c")
  case True
  then show ?thesis
    by (simp add: clearCacheByPrefix_def cache_get_fold_delete)
next
  case False
  then have "cache_get k c = None"
    by (simp add: cache_get_None_iff)
  then show ?thesis
    by (simp add: clearCacheByPrefix_def cache_get_fold_delete)
qed

section \<open>The derivative key\<close>

lemma split_at_last:
  assumes "c \<notin> set v1" "c \<notin> set v2" "r1 @ c # v1 = r2 @ c # v2"
  shows "r1 = r2 \<and> v1 = v2"
proof -
  from assms(3) have e: "rev v1 @ c # rev r1 = rev v2 @ c # rev r2"
    by (metis rev_append rev.simps(2) append_assoc append_Cons append_Nil)
  have t1: "takeWhile (\<lambda>x. x \<noteq> c) (rev v1 @ c # rev r1) = rev v1"
    using assms(1) by (subst takeWhile_append2) auto
  have t2: "takeWhile (\<lambda>x. x \<noteq> c) (rev v2 @ c # rev r2) = rev v2"
    using assms(2) by (subst takeWhile_append2) auto
  from e t1 t2 have "rev v1 = rev v2" by simp
  then have v: "v1 = v2" by simp
  with assms(3) show ?thesis by simp
qed

lemma variants_no_hyphen: "v \<in> set variants \<Longrightarrow> CHR ''-'' \<notin> set v"
  by (auto simp: variants_def)

text \<open>
  C7. The key of the avatar endpoint is a function of the resource id and the variant,
  and over the variant domain \<open>small\<close>, \<open>medium\<close>, \<open>large\<close>, \<open>original\<close> it is
  injective: two keys are equal exactly when both the resource ids and the variants are
  equal. No variant name contains the separator, so the key splits at its last hyphen
  whatever the resource id contains.
\<close>

theorem cacheKey_injective:
  "v1 \<in> set variants \<Longrightarrow> v2 \<in> set variants \<Longrightarrow>
   (cacheKey r1 v1 = cacheKey r2 v2) = (r1 = r2 \<and> v1 = v2)"
  using split_at_last [of "CHR ''-''" v1 v2 r1 r2]
  by (auto simp: cacheKey_def dest: variants_no_hyphen)

theorem cacheKey_injective_witness:
  "''small'' \<in> set variants \<and> ''large'' \<in> set variants
   \<and> cacheKey ''a-b'' ''small'' \<noteq> cacheKey ''a'' ''large''"
  using cacheKey_injective [of "''small''" "''large''" "''a-b''" "''a''"]
  by (simp add: variants_def)

section \<open>Evaluation in the sample world\<close>

lemmas sample_defs =
  sample_env_def user_u1_def nl_id_def st_empty_def st_u1_def st_123_def st_image_def
  st_image_123_def owner_u1_def admin_user_def

lemmas handler_defs =
  avatar_get_def avatar_get_try_def avatar_get_miss_def avatar_get_catch_def
  store_and_send_def avatar_post_def avatar_delete_def call_def cache_get_def cache_set_def
  cache_delete_def clearCacheByPrefix_def cacheKey_def image_cacheKey_def query_size_def
  targetSize_def sizes_def hit_headers_def miss_headers_def imageUrl_def
  objectPrototypeKeys_def image_get_def image_get_try_def image_get_miss_def
  image_store_and_send_def image_miss_headers_def image_fileUrl_def image_delete_def
  set_and_send_def invalid_header_char_def dquote_def route_avatar_get_def

section \<open>The size table and the transform\<close>

lemma truthy_targetSize: "truthy (targetSize sz)"
  by (simp add: targetSize_def sizes_def)

lemma targetSize_unrecognized:
  "\<not> List.member variants v \<Longrightarrow> \<not> List.member objectPrototypeKeys v \<Longrightarrow>
   targetSize v = JNum 300"
  by (simp add: targetSize_def sizes_def variants_def)

text \<open>
  C3. \<open>small\<close>, \<open>medium\<close> and \<open>large\<close> map to the targets 100, 300 and 600. For
  \<open>original\<close> the table holds \<^verbatim>\<open>null\<close>, which is falsy, so \<^verbatim>\<open>sizes[size] || sizes.medium\<close>
  yields 300: in the sample world a request for \<open>original\<close> calls the resize with target
  300 and answers and caches the resized bytes \<open>[1, 2]\<close>, not the fetched original
  \<open>[1, 2, 3, 4]\<close>.
\<close>

theorem original_is_resized_to_medium:
  "targetSize ''small'' = JNum 100 \<and> targetSize ''medium'' = JNum 300
   \<and> targetSize ''large'' = JNum 600 \<and> targetSize ''original'' = JNum 300
   \<and> avatar_get sample_env ''u1'' (Some ''original'') None st_empty =
       (Send [(''Content-Type'', HStr ''image/webp''), (''Content-Length'', HNum 2),
              (''Cache-Control'', HStr ''public, max-age=86400''),
              (''X-Cache'', HStr ''MISS''), (''X-Image-Id'', HStr ''u1'')] [1, 2],
        \<lparr>imageCache = [(''u1-original'', [1, 2])],
         calls = [CallGetOne ''u1'',
                  CallFetch ''http://pocketbase:8090/api/files/users/u1/a.webp'',
                  CallResize Cover (JNum 300) [1, 2, 3, 4]]\<rparr>)"
  by (simp add: sample_defs handler_defs)

section \<open>Invalidation\<close>

lemma cacheKey_neq_userId: "cacheKey userId sz \<noteq> userId"
  by (simp add: cacheKey_def)

text \<open>The prefix loop of the DELETE handler removes every variant of the resource.\<close>

lemma clearCacheByPrefix_removes_variants:
  "cache_get (cacheKey userId sz) (clearCacheByPrefix userId c) = None"
  by (simp add: cache_get_clearCacheByPrefix cacheKey_def startsWith_append)

text \<open>The upload handler deletes the key \<open>userId\<close>, which is the key of no variant.\<close>

lemma avatar_post_keeps_variants:
  "cache_get (cacheKey userId sz) (imageCache (snd (avatar_post env user userId file st)))
   = cache_get (cacheKey userId sz) (imageCache st)"
  by (simp add: avatar_post_def call_def Let_def cache_get_delete cacheKey_neq_userId
        split: option.splits sum.splits)

text \<open>
  C1. After a successful upload for \<open>u1\<close> the variants cached for \<open>u1\<close> are all still
  there: \<^verbatim>\<open>imageCache.delete(userId)\<close> removes the key \<open>u1\<close>, and the cached keys are
  \<open>u1-small\<close> and \<open>u1-medium\<close>.
\<close>

theorem upload_keeps_every_variant:
  "avatar_post sample_env owner_u1 ''u1'' (Some [7, 7]) st_u1 =
     (JsonOk ''Avatar actualizado exitosamente'' [(''id'', ''u1''), (''avatar'', ''new.webp'')],
      \<lparr>imageCache = [(''u1-small'', [9]), (''u1-medium'', [8, 8])],
       calls = [CallUpload [7, 7], CallUpdate ''u1'' (Some [7, 7])]\<rparr>)"
  by (simp add: sample_defs handler_defs)

text \<open>
  C2. Deleting the avatar of user \<open>12\<close> removes the cached medium derivative of user
  \<open>123\<close>: the key \<open>123-medium\<close> starts with \<open>12\<close>. In the same way, deleting the image
  \<open>12\<close> removes the entry that a request for the image \<open>123\<close> has cached under
  \<open>image-123-medium\<close>.
\<close>

theorem delete_removes_longer_id:
  "cache_get (cacheKey ''123'' ''medium'') (imageCache st_123) = Some [5]
   \<and> avatar_delete sample_env admin_user ''12'' st_123 =
       (JsonOk ''Avatar eliminado exitosamente''
          [(''id'', ''12''), (''avatar'', []), (''collectionId'', ''users'')],
        \<lparr>imageCache = [], calls = [CallUpdate ''12'' None]\<rparr>)
   \<and> snd (image_get sample_env ''123'' None st_empty) = st_image_123
   \<and> imageCache (snd (image_delete sample_env ''12'' st_image_123)) = []"
  by (simp add: sample_defs handler_defs)

text \<open>
  C10. The avatar key of the user id \<open>image-x\<close> with variant \<open>medium\<close> is the image key
  of the image \<open>x\<close> with variant \<open>medium\<close>. Once the image endpoint has cached that
  derivative, the avatar endpoint answers a request for the user id \<open>image-x\<close> from the
  image's entry, and deleting the avatar of a user \<open>image\<close> removes the image's entry.
\<close>

theorem avatar_and_image_keys_overlap:
  "cacheKey ''image-x'' ''medium'' = image_cacheKey ''x'' ''medium''
   \<and> image_get sample_env ''x'' None st_empty =
       (Send [(''Content-Type'', HStr ''image/webp''), (''Content-Length'', HNum 2),
              (''Cache-Control'', HStr ''public, max-age=86400''),
              (''X-Cache'', HStr ''MISS'')] [1, 2],
        st_image)
   \<and> avatar_get sample_env ''image-x'' None None st_image =
       (Send [(''Content-Type'', HStr ''image/webp''), (''Content-Length'', HNum 2),
              (''Cache-Control'', HStr ''public, max-age=86400''),
              (''X-Cache'', HStr ''HIT'')] [1, 2],
        st_image)
   \<and> imageCache (snd (avatar_delete sample_env admin_user ''image'' st_image)) = []"
  by (simp add: sample_defs handler_defs)

section \<open>The GET handler\<close>

lemma checkInvalidHeaderChar_append:
  "checkInvalidHeaderChar (a @ b) = (checkInvalidHeaderChar a \<or> checkInvalidHeaderChar b)"
  by (induction a) auto

lemma res_set_hit_headers: "res_set (hit_headers cached) = None"
  by (simp add: hit_headers_def invalid_header_char_def)

lemma res_set_miss_headers:
  "res_set (miss_headers userId download b) =
     (if checkInvalidHeaderChar userId
      then Some (Exn None (''Invalid character in header content ['' @ [dquote]
                            @ ''X-Image-Id'' @ [dquote] @ '']''))
      else None)"
  by (simp add: miss_headers_def checkInvalidHeaderChar_append invalid_header_char_def
        dquote_def)

lemma set_and_send_hit: "set_and_send (hit_headers cached) cached = Inr (Send (hit_headers cached) cached)"
  by (simp add: set_and_send_def res_set_hit_headers)

lemma set_and_send_miss:
  "\<not> checkInvalidHeaderChar userId \<Longrightarrow>
   set_and_send (miss_headers userId download b) b = Inr (Send (miss_headers userId download b) b)"
  by (simp add: set_and_send_def res_set_miss_headers)

lemma set_and_send_Send: "set_and_send hs b = Inr r \<Longrightarrow> r = Send hs b"
  by (simp add: set_and_send_def split: option.splits)

text \<open>The miss path reads the state only to extend it.\<close>

lemma avatar_get_miss_fst:
  "fst (avatar_get_miss env userId sz download key st)
   = fst (avatar_get_miss env userId sz download key' st')"
  by (simp add: avatar_get_miss_def store_and_send_def Let_def split: sum.splits)



lemma avatar_get_miss_stored:
  "fst (avatar_get_miss env userId sz download key st) = Inr (Send hs b) \<Longrightarrow>
   cache_get key (imageCache (snd (avatar_get_miss env userId sz download key st))) = Some b"
  by (auto simp add: avatar_get_miss_def store_and_send_def call_def Let_def cache_get_set
        split: sum.splits if_splits dest: set_and_send_Send)


lemma avatar_get_fst:
  "fst (avatar_get env userId q d st)
   = (case fst (avatar_get_try env userId q d st) of
        Inl e \<Rightarrow> avatar_get_catch env e
      | Inr r \<Rightarrow> r)"
  by (simp add: avatar_get_def split: prod.splits sum.splits)

lemma avatar_get_snd:
  "snd (avatar_get env userId q d st) = snd (avatar_get_try env userId q d st)"
  by (simp add: avatar_get_def split: prod.splits sum.splits)



lemma status_catch: "status_of (avatar_get_catch env e) \<noteq> 200"
  by (simp add: avatar_get_catch_def)

lemma avatar_get_try_hit:
  "cache_get (cacheKey userId (query_size q)) (imageCache st) = Some cached \<Longrightarrow>
   avatar_get_try env userId q d st = (Inr (Send (hit_headers cached) cached), st)"
  by (simp add: avatar_get_try_def Let_def set_and_send_hit)

lemma avatar_get_hit:
  "cache_get (cacheKey userId (query_size q)) (imageCache st) = Some cached \<Longrightarrow>
   avatar_get env userId q d st = (Send (hit_headers cached) cached, st)"
  by (simp add: avatar_get_def avatar_get_try_hit)

lemma avatar_get_try_miss:
  "cache_get (cacheKey userId (query_size q)) (imageCache st) = None \<Longrightarrow>
   avatar_get_try env userId q d st
   = avatar_get_miss env userId (query_size q) (d = Some ''true'')
       (cacheKey userId (query_size q)) st"
  by (simp add: avatar_get_try_def Let_def)



lemma avatar_get_send_headers:
  "fst (avatar_get env userId q d st) = Send hs b \<Longrightarrow>
   map_of hs ''Content-Type'' = Some (HStr ''image/webp'')
   \<and> map_of hs ''Content-Length'' = Some (HNum (length b))
   \<and> map_of hs ''Cache-Control'' = Some (HStr ''public, max-age=86400'')
   \<and> (map_of hs ''X-Cache'' = Some (HStr ''HIT'') \<or> map_of hs ''X-Cache'' = Some (HStr ''MISS''))"
  by (auto simp add: avatar_get_def avatar_get_try_def avatar_get_miss_def store_and_send_def
        avatar_get_catch_def hit_headers_def miss_headers_def Let_def
        split: option.splits sum.splits if_splits dest!: set_and_send_Send)


text \<open>
  C5, as stated, fails. In the sample world the user \<open>nl_id\<close> has a stored original that
  is fetched and transformed, and the cache is fresh; the first request stores the
  derivative, then \<^verbatim>\<open>res.set\<close> throws on the header \<open>X-Image-Id\<close>, and the answer is the
  500 of the \<^verbatim>\<open>catch\<close> block, not the bytes with the marker MISS.
\<close>

theorem first_get_counterexample:
  "imageCache st_empty = []
   \<and> getOne sample_env nl_id
       = Inr \<lparr>user_id = nl_id, user_avatar = ''b.webp'', user_collectionId = ''users''\<rparr>
   \<and> avatar_get sample_env nl_id (Some ''small'') None st_empty =
       (JsonError 500 ''Error interno del servidor'' None,
        \<lparr>imageCache = [(nl_id @ ''-small'', [1, 2])],
         calls = [CallGetOne nl_id,
                  CallFetch (''http://pocketbase:8090/api/files/users/'' @ nl_id @ ''/b.webp''),
                  CallResize Cover (JNum 100) [1, 2, 3, 4]]\<rparr>)"
  by (simp add: sample_defs handler_defs)

text \<open>
  C5, amended. Let the resource id be a legal header value (no character below \<open>0x20\<close>
  other than tab, and no \<open>0x7f\<close>), and let its record have an avatar that is fetched
  and transformed. Then on a fresh cache the first request answers with the marker MISS
  and the transformed bytes; the same request repeated at once answers with the marker
  HIT and the same bytes, and leaves the whole state as it was: no collaborator call is
  logged and the cache is unchanged.
\<close>

theorem first_miss_then_hit:
  assumes "\<not> checkInvalidHeaderChar r"
    and "imageCache st = []"
    and "getOne env r = Inr user" and "user_avatar user \<noteq> []"
    and "fetch env (imageUrl env user) = Inr resp" and "resp_ok resp"
    and "sharp_resize_webp env Cover (targetSize (query_size q)) (resp_body resp) = Inr img"
  shows "header ''X-Cache'' (fst (avatar_get env r q d st)) = Some (HStr ''MISS'')
    \<and> sent_bytes (fst (avatar_get env r q d st)) = Some img
    \<and> header ''X-Cache'' (fst (avatar_get env r q d (snd (avatar_get env r q d st))))
        = Some (HStr ''HIT'')
    \<and> sent_bytes (fst (avatar_get env r q d (snd (avatar_get env r q d st)))) = Some img
    \<and> snd (avatar_get env r q d (snd (avatar_get env r q d st)))
        = snd (avatar_get env r q d st)"
proof -
  let ?key = "cacheKey r (query_size q)"
  let ?dl = "d = Some ''true''"
  have miss: "cache_get ?key (imageCache st) = None"
    using assms(2) by (simp add: cache_get_def)
  have m: "fst (avatar_get_miss env r (query_size q) ?dl ?key st)
           = Inr (Send (miss_headers r ?dl img) img)"
    using assms
    by (simp add: avatar_get_miss_def store_and_send_def truthy_targetSize Let_def
          set_and_send_miss)
  have first: "fst (avatar_get env r q d st) = Send (miss_headers r ?dl img) img"
    by (simp add: avatar_get_fst avatar_get_try_miss [OF miss] m)
  have stored: "cache_get ?key (imageCache (snd (avatar_get env r q d st))) = Some img"
    using avatar_get_miss_stored [OF m]
    by (simp add: avatar_get_snd avatar_get_try_miss [OF miss])
  have second: "avatar_get env r q d (snd (avatar_get env r q d st))
                = (Send (hit_headers img) img, snd (avatar_get env r q d st))"
    by (rule avatar_get_hit [OF stored])
  from first second show ?thesis
    by (simp add: miss_headers_def hit_headers_def)
qed

theorem first_miss_then_hit_witness:
  "\<not> checkInvalidHeaderChar ''u1''
   \<and> imageCache st_empty = []
   \<and> getOne sample_env ''u1'' = Inr user_u1 \<and> user_avatar user_u1 \<noteq> []
   \<and> fetch sample_env (imageUrl sample_env user_u1)
       = Inr \<lparr>resp_ok = True, resp_body = [1, 2, 3, 4]\<rparr>
   \<and> sharp_resize_webp sample_env Cover (targetSize (query_size (Some ''small''))) [1, 2, 3, 4]
       = Inr [1, 2]
   \<and> header ''X-Cache'' (fst (avatar_get sample_env ''u1'' (Some ''small'') None st_empty))
       = Some (HStr ''MISS'')
   \<and> header ''X-Cache''
        (fst (avatar_get sample_env ''u1'' (Some ''small'') None
               (snd (avatar_get sample_env ''u1'' (Some ''small'') None st_empty))))
       = Some (HStr ''HIT'')
   \<and> sent_bytes
        (fst (avatar_get sample_env ''u1'' (Some ''small'') None
               (snd (avatar_get sample_env ''u1'' (Some ''small'') None st_empty))))
       = Some [1, 2]"
proof -
  have h0: "\<not> checkInvalidHeaderChar ''u1''"
    by (simp add: invalid_header_char_def)
  have h1: "imageCache st_empty = []"
    by (simp add: st_empty_def)
  have h2: "getOne sample_env ''u1'' = Inr user_u1"
    by (simp add: sample_env_def)
  have h3: "user_avatar user_u1 \<noteq> []"
    by (simp add: user_u1_def)
  have h4: "fetch sample_env (imageUrl sample_env user_u1)
            = Inr \<lparr>resp_ok = True, resp_body = [1, 2, 3, 4]\<rparr>"
    by (simp add: sample_env_def)
  have h5: "resp_ok \<lparr>resp_ok = True, resp_body = [1, 2, 3, 4]\<rparr>"
    by simp
  have h6: "sharp_resize_webp sample_env Cover (targetSize (query_size (Some ''small'')))
              (resp_body \<lparr>resp_ok = True, resp_body = [1, 2, 3, 4]\<rparr>) = Inr [1, 2]"
    by (simp add: sample_env_def targetSize_def sizes_def query_size_def)
  note c = first_miss_then_hit [OF h0 h1 h2 h3 h4 h5 h6, of None]
  from h0 h1 h2 h3 h4 h6 c show ?thesis
    by simp
qed




text \<open>
  C8. A request with \<^verbatim>\<open>download=true\<close> that is answered from the cache carries the four
  HIT headers and no \<open>Content-Disposition\<close>; the same flag on a request that misses adds
  \<open>Content-Disposition: attachment\<close> with the file name \<open>avatar-u1.webp\<close>.
\<close>

theorem hit_drops_content_disposition:
  "avatar_get sample_env ''u1'' (Some ''medium'') (Some ''true'') st_u1 =
     (Send [(''Content-Type'', HStr ''image/webp''), (''Content-Length'', HNum 2),
            (''Cache-Control'', HStr ''public, max-age=86400''),
            (''X-Cache'', HStr ''HIT'')] [8, 8],
      st_u1)
   \<and> header ''Content-Disposition''
        (fst (avatar_get sample_env ''u1'' (Some ''medium'') (Some ''true'') st_u1)) = None
   \<and> header ''Content-Disposition''
        (fst (avatar_get sample_env ''u1'' (Some ''large'') (Some ''true'') st_u1))
       = Some (HStr (''attachment; filename='' @ [dquote] @ ''avatar-u1.webp'' @ [dquote]))"
  by (simp add: sample_defs handler_defs)

section \<open>Unrecognized variants\<close>




section \<open>Validation of the request\<close>

lemma avatar_get_status:
  "status_of (fst (avatar_get env userId q d st)) = 200
   \<or> status_of (fst (avatar_get env userId q d st)) = 404
   \<or> status_of (fst (avatar_get env userId q d st)) = 500"
  by (auto simp add: avatar_get_def avatar_get_try_def avatar_get_miss_def store_and_send_def
        avatar_get_catch_def set_and_send_def Let_def split: option.splits sum.splits if_splits)

lemma avatar_get_failure_like_medium:
  assumes "\<not> List.member variants v" and "\<not> List.member objectPrototypeKeys v"
    and "status_of (fst (avatar_get env userId (Some v) d st)) \<noteq> 200"
  shows "fst (avatar_get env userId (Some v) d st)
         = fst (avatar_get env userId (Some ''medium'') d (st\<lparr>imageCache := []\<rparr>))"
proof (cases "cache_get (cacheKey userId v) (imageCache st)")
  case None
  have t: "targetSize v = targetSize ''medium''"
    using targetSize_unrecognized [OF assms(1,2)] by (simp add: targetSize_def sizes_def)
  have same: "avatar_get_miss env userId v (d = Some ''true'') k s
              = avatar_get_miss env userId ''medium'' (d = Some ''true'') k s" for k s
    unfolding avatar_get_miss_def t ..
  have e: "cache_get (cacheKey userId ''medium'') (imageCache (st\<lparr>imageCache := []\<rparr>)) = None"
    by (simp add: cache_get_def)
  show ?thesis
    using None e
      avatar_get_miss_fst [of env userId "''medium''" "d = Some ''true''" "cacheKey userId v" st
        "cacheKey userId ''medium''" "st\<lparr>imageCache := []\<rparr>"]
    by (simp add: avatar_get_fst avatar_get_try_miss query_size_def same)
next
  case (Some cached)
  with assms(3) show ?thesis
    using avatar_get_hit [of userId "Some v" st cached env d]
    by (simp add: query_size_def)
qed

text \<open>
  C9, as stated, fails. A request whose id segment is empty matches no route: it is
  answered 404, the status of a missing resource, with nothing looked up. And the
  variant string \<open>constructor\<close>, which is unrecognized, is an error: in the sample world
  the request for it fails with 500.
\<close>

theorem empty_id_counterexample:
  "route_avatar_get sample_env [] (Some ''medium'') None st_u1 = (NoRoute, st_u1)
   \<and> status_of (fst (route_avatar_get sample_env [] (Some ''medium'') None st_u1)) = 404
   \<and> fst (route_avatar_get sample_env ''u1'' (Some ''constructor'') None st_u1)
       = JsonError 500 ''Error interno del servidor'' None"
  by (simp add: sample_defs handler_defs)

text \<open>
  C9, amended. An empty resource id is not rejected as invalid input: a request whose
  id segment is empty matches no route and is answered 404 with the state untouched.
  Whatever the resource id and the variant string, the answer is 200, 404 or 500, never
  a validation error (the 400 that the sibling handlers use for a missing id or file).
  An unrecognized variant that is not the name of a member of \<^verbatim>\<open>Object.prototype\<close> is
  not an error: when the request for it fails, it fails with the very answer that the
  request for \<open>medium\<close> gets on an empty cache.
\<close>

theorem get_has_no_validation_error:
  "route_avatar_get env [] q d st = (NoRoute, st)
   \<and> (status_of (fst (route_avatar_get env userId q d st)) = 200
       \<or> status_of (fst (route_avatar_get env userId q d st)) = 404
       \<or> status_of (fst (route_avatar_get env userId q d st)) = 500)
   \<and> (\<not> List.member variants v \<and> \<not> List.member objectPrototypeKeys v
       \<and> status_of (fst (route_avatar_get env userId (Some v) d st)) \<noteq> 200 \<longrightarrow>
         fst (route_avatar_get env userId (Some v) d st)
         = fst (route_avatar_get env userId (Some ''medium'') d (st\<lparr>imageCache := []\<rparr>)))"
  using avatar_get_status [of env userId q d st]
    avatar_get_failure_like_medium [of v env userId d st]
  by (simp add: route_avatar_get_def)

theorem get_has_no_validation_error_witness:
  "\<not> List.member variants ''tiny'' \<and> \<not> List.member objectPrototypeKeys ''tiny''
   \<and> status_of (fst (route_avatar_get sample_env ''u2'' (Some ''tiny'') None st_u1)) \<noteq> 200
   \<and> fst (route_avatar_get sample_env ''u2'' (Some ''tiny'') None st_u1)
       = fst (route_avatar_get sample_env ''u2'' (Some ''medium'') None
               (st_u1\<lparr>imageCache := []\<rparr>))
   \<and> route_avatar_get sample_env [] None None st_u1 = (NoRoute, st_u1)"
proof -
  have h1: "\<not> List.member variants ''tiny''"
    by (simp add: variants_def)
  have h2: "\<not> List.member objectPrototypeKeys ''tiny''"
    by (simp add: objectPrototypeKeys_def)
  have h3: "status_of (fst (route_avatar_get sample_env ''u2'' (Some ''tiny'') None st_u1))
            \<noteq> 200"
    by (simp add: sample_defs handler_defs)
  note c = get_has_no_validation_error [of sample_env None None st_u1 "''u2''" "''tiny''"]
  from c h1 h2 h3 have e:
    "fst (route_avatar_get sample_env ''u2'' (Some ''tiny'') None st_u1)
     = fst (route_avatar_get sample_env ''u2'' (Some ''medium'') None
             (st_u1\<lparr>imageCache := []\<rparr>))"
    by blast
  from c have n: "route_avatar_get sample_env [] None None st_u1 = (NoRoute, st_u1)"
    by blast
  from h1 h2 h3 e n show ?thesis
    by blast
qed

end
